theory Spec2Isabelle
  imports Complex_Main
begin

section \<open>Values of the geometry and kinematics library\<close>

text \<open>
  The drivetrain coordinator of \<^verbatim>\<open>swervepy/subsystem.py\<close> and its older sibling
  \<^verbatim>\<open>swervelib/impl/system.py\<close> pass values of the \<^verbatim>\<open>wpimath\<close> library around.
  Python floats are modelled as \<^typ>\<open>real\<close>: rounding, infinities and NaN are outside
  the model. A \<^verbatim>\<open>Rotation2d\<close> is its angle in radians, counter-clockwise positive.
\<close>

type_synonym Rotation2d = real

record Translation2d =
  trans_x :: real
  trans_y :: real

record ChassisSpeeds =
  vx :: real
  vy :: real
  omega :: real

record SwerveModuleState =
  speed :: real
  angle :: Rotation2d

record SwerveModulePosition =
  distance :: real
  position_angle :: Rotation2d

record Pose2d =
  pose_x :: real
  pose_y :: real
  rotation :: Rotation2d

text \<open>\<^verbatim>\<open>Pose2d()\<close>: the pose at the origin, facing forward.\<close>

definition origin_pose :: Pose2d where
  "origin_pose = \<lparr>pose_x = 0, pose_y = 0, rotation = 0\<rparr>"

section \<open>The collaborators of the drivetrain\<close>

text \<open>
  Modelled from the spec: the module command interface (the abstract class
  \<^verbatim>\<open>SwerveModule\<close> of \<^verbatim>\<open>swervepy.abstract\<close>, which is not under src/), read through its
  properties \<^verbatim>\<open>placement\<close>, \<^verbatim>\<open>module_position\<close> and \<^verbatim>\<open>module_state\<close>.
\<close>

record SwerveModule =
  placement :: Translation2d
  module_position :: SwerveModulePosition
  module_state :: SwerveModuleState

text \<open>
  Modelled from the spec: the heading sensor interface (the abstract class \<^verbatim>\<open>Gyro\<close> of
  \<^verbatim>\<open>swervepy.abstract\<close>, which is not under src/), read through \<^verbatim>\<open>heading\<close>.
\<close>

record Gyro =
  heading :: Rotation2d

text \<open>
  The methods the drivetrain calls on the modules, the gyro, the pose estimator and the
  vision callback have effects outside the program, so every such call is recorded, in
  order, in the drivetrain's \<open>calls\<close>. A module is named by its index in the module tuple.
\<close>

datatype call =
    Module_reset nat
  | Module_desire_state nat SwerveModuleState bool bool
  | Gyro_zero_heading
  | Odometry_update Rotation2d "SwerveModulePosition list"
  | Vision_pose_callback Pose2d
  | Odometry_addVisionMeasurement Pose2d real
  | Odometry_resetPosition Rotation2d "SwerveModulePosition list" Pose2d

datatype error = IndexError | AttributeError | ValueError

text \<open>
  Modelled from the spec: the kinematics object \<^verbatim>\<open>SwerveDriveNKinematics\<close> of wpimath,
  which is not under src/. It is built from the module placements; its inverse
  kinematics \<^verbatim>\<open>toSwerveModuleStates\<close> (chassis speed to one state per module) is a
  parameter of the model, kept as a field.
\<close>

record SwerveDriveKinematics =
  placements :: "Translation2d list"
  toSwerveModuleStates :: "ChassisSpeeds \<Rightarrow> SwerveModuleState list"

text \<open>
  Modelled from the spec: the pose estimator \<^verbatim>\<open>SwerveDriveNPoseEstimator\<close> of wpimath,
  which is not under src/. It owns the pose estimate and the heading and module
  positions it last saw. The fusion filter and the way a vision correction is blended in
  are parameters, kept as the fields \<open>fusion\<close> and \<open>correction\<close>.
\<close>

record PoseEstimator =
  estimate :: Pose2d
  baseline_heading :: Rotation2d
  baseline_positions :: "SwerveModulePosition list"
  fusion :: "Pose2d \<Rightarrow> Rotation2d \<Rightarrow> SwerveModulePosition list \<Rightarrow>
             Rotation2d \<Rightarrow> SwerveModulePosition list \<Rightarrow> Pose2d"
  correction :: "Pose2d \<Rightarrow> Pose2d \<Rightarrow> real \<Rightarrow> Pose2d"

text \<open>
  Modelled from the spec: \<^verbatim>\<open>update\<close> fuses the heading and the module positions into the
  pose estimate (and returns it); they are the baseline of the next update.
\<close>

definition update :: "PoseEstimator \<Rightarrow> Rotation2d \<Rightarrow> SwerveModulePosition list \<Rightarrow> PoseEstimator" where
  "update e h ps =
     e\<lparr>estimate := fusion e (estimate e) (baseline_heading e) (baseline_positions e) h ps,
       baseline_heading := h, baseline_positions := ps\<rparr>"

text \<open>Modelled from the spec: \<^verbatim>\<open>addVisionMeasurement\<close> feeds a timestamped correction to the estimate.\<close>

definition addVisionMeasurement :: "PoseEstimator \<Rightarrow> Pose2d \<Rightarrow> real \<Rightarrow> PoseEstimator" where
  "addVisionMeasurement e p ts = e\<lparr>estimate := correction e (estimate e) p ts\<rparr>"

text \<open>
  Modelled from the spec: \<^verbatim>\<open>resetPosition\<close> resets the estimate to the given pose, with the
  given heading and module positions as the new baseline.
\<close>

definition resetPosition ::
  "PoseEstimator \<Rightarrow> Rotation2d \<Rightarrow> SwerveModulePosition list \<Rightarrow> Pose2d \<Rightarrow> PoseEstimator" where
  "resetPosition e h ps p = e\<lparr>estimate := p, baseline_heading := h, baseline_positions := ps\<rparr>"

text \<open>Modelled from the spec: \<^verbatim>\<open>getEstimatedPosition\<close> reads the estimate.\<close>

definition getEstimatedPosition :: "PoseEstimator \<Rightarrow> Pose2d" where
  "getEstimatedPosition e = estimate e"

text \<open>
  Modelled from the spec: the largest speed magnitude \<open>max |v\<^sub>i|\<close> among module states, which
  \<^verbatim>\<open>desaturateWheelSpeeds\<close> compares with the ceiling; computed by a left-to-right scan.
\<close>

definition max_abs_speed :: "SwerveModuleState list \<Rightarrow> real" where
  "max_abs_speed states = fold (\<lambda>s m. max m \<bar>speed s\<bar>) states 0"

text \<open>
  Modelled from the spec: \<^verbatim>\<open>desaturateWheelSpeeds\<close> of the wpimath kinematics object,
  which is not under src/: a uniform scale-down of every speed by
  \<open>limit / max |v\<^sub>i|\<close> if some module exceeds the ceiling, the input otherwise. Angles are
  untouched.
\<close>

definition desaturateWheelSpeeds :: "SwerveModuleState list \<Rightarrow> real \<Rightarrow> SwerveModuleState list" where
  "desaturateWheelSpeeds states attainable =
     (let m = max_abs_speed states in
      if m > attainable then map (\<lambda>s. s\<lparr>speed := speed s * (attainable / m)\<rparr>) states
      else states)"

text \<open>
  Modelled from the spec: \<^verbatim>\<open>ChassisSpeeds.fromFieldRelativeSpeeds\<close> of wpimath, which is
  not under src/: the translation is rotated by the opposite of the robot's heading, the
  rotation rate is kept.
\<close>

definition fromFieldRelativeSpeeds :: "real \<Rightarrow> real \<Rightarrow> real \<Rightarrow> Rotation2d \<Rightarrow> ChassisSpeeds" where
  "fromFieldRelativeSpeeds fx fy rot robot_angle =
     \<lparr>vx = fx * cos robot_angle + fy * sin robot_angle,
      vy = fy * cos robot_angle - fx * sin robot_angle,
      omega = rot\<rparr>"

section \<open>The drivetrain\<close>

text \<open>
  The fields of \<^verbatim>\<open>SwerveDrive\<close> that \<^verbatim>\<open>__init__\<close> sets, and the record of the calls made
  to the collaborators. The velocity limits are the magnitudes in m/s and rad/s that
  \<^verbatim>\<open>m_as\<close> extracts.
\<close>

record SwerveDrive =
  modules :: "SwerveModule list"
  gyro :: Gyro
  vision_pose_callback :: "Pose2d \<Rightarrow> Pose2d option"
  max_velocity :: real
  max_angular_velocity :: real
  kinematics :: SwerveDriveKinematics
  odometry :: PoseEstimator
  calls :: "call list"

text \<open>
  The loop of \<^verbatim>\<open>desire_module_states\<close> over a range of indices: \<^verbatim>\<open>self._modules[i]\<close> is
  read first, then \<^verbatim>\<open>swerve_module_states[i]\<close>; either raises IndexError out of range,
  and the modules commanded before that stay commanded.
\<close>

fun desire_loop ::
  "nat list \<Rightarrow> SwerveModuleState list \<Rightarrow> bool \<Rightarrow> bool \<Rightarrow> SwerveDrive \<Rightarrow> SwerveDrive \<times> error option" where
  "desire_loop [] sts ol rip d = (d, None)"
| "desire_loop (i # js) sts ol rip d =
     (if i < length (modules d) then
        if i < length sts then
          desire_loop js sts ol rip (d\<lparr>calls := calls d @ [Module_desire_state i (sts ! i) ol rip]\<rparr>)
        else (d, Some IndexError)
      else (d, Some IndexError))"

text \<open>\<^verbatim>\<open>SwerveDrive.desire_module_states\<close> of swervepy/subsystem.py: \<^verbatim>\<open>range(len(self._modules))\<close>.\<close>

definition desire_module_states ::
  "SwerveDrive \<Rightarrow> SwerveModuleState list \<Rightarrow> bool \<Rightarrow> bool \<Rightarrow> SwerveDrive \<times> error option" where
  "desire_module_states d states drive_open_loop rotate_in_place =
     (let swerve_module_states = desaturateWheelSpeeds states (max_velocity d)
      in desire_loop [0..<length (modules d)] swerve_module_states drive_open_loop rotate_in_place d)"

text \<open>\<^verbatim>\<open>SwerveDrive.desire_module_states\<close> of swervelib/impl/system.py: \<^verbatim>\<open>range(4)\<close>.\<close>

definition desire_module_states_impl ::
  "SwerveDrive \<Rightarrow> SwerveModuleState list \<Rightarrow> bool \<Rightarrow> bool \<Rightarrow> SwerveDrive \<times> error option" where
  "desire_module_states_impl d states open_loop rotate_in_place =
     (let swerve_module_states = desaturateWheelSpeeds states (max_velocity d)
      in desire_loop [0..<4] swerve_module_states open_loop rotate_in_place d)"

text \<open>The defaults of the signature: \<^verbatim>\<open>drive_open_loop=False, rotate_in_place=True\<close>.\<close>

definition desire_module_states_default :: "SwerveDrive \<Rightarrow> SwerveModuleState list \<Rightarrow> SwerveDrive \<times> error option" where
  "desire_module_states_default d states = desire_module_states d states False True"

definition desire_module_states_impl_default :: "SwerveDrive \<Rightarrow> SwerveModuleState list \<Rightarrow> SwerveDrive \<times> error option" where
  "desire_module_states_impl_default d states = desire_module_states_impl d states False True"

text \<open>
  The chassis speed that \<^verbatim>\<open>drive\<close> composes (the conditional expression bound to
  \<^verbatim>\<open>speeds\<close>), the same in both files.
\<close>

definition drive_speeds :: "SwerveDrive \<Rightarrow> Translation2d \<Rightarrow> real \<Rightarrow> bool \<Rightarrow> ChassisSpeeds" where
  "drive_speeds d translation rot field_relative =
     (if field_relative
      then fromFieldRelativeSpeeds (trans_x translation) (trans_y translation) rot (heading (gyro d))
      else \<lparr>vx = trans_x translation, vy = trans_y translation, omega = rot\<rparr>)"

text \<open>\<^verbatim>\<open>SwerveDrive.drive\<close> of swervepy/subsystem.py, the primary implementation.\<close>

definition drive ::
  "SwerveDrive \<Rightarrow> Translation2d \<Rightarrow> real \<Rightarrow> bool \<Rightarrow> bool \<Rightarrow> SwerveDrive \<times> error option" where
  "drive d translation rot field_relative drive_open_loop =
     (let speeds = drive_speeds d translation rot field_relative;
          swerve_module_states = toSwerveModuleStates (kinematics d) speeds
      in desire_module_states d swerve_module_states drive_open_loop False)"

text \<open>The overload of \<^verbatim>\<open>drive\<close> registered for a \<^verbatim>\<open>ChassisSpeeds\<close> first argument.\<close>

definition drive_chassis_speeds ::
  "SwerveDrive \<Rightarrow> ChassisSpeeds \<Rightarrow> bool \<Rightarrow> SwerveDrive \<times> error option" where
  "drive_chassis_speeds d chassis_speeds drive_open_loop =
     (let translation = \<lparr>trans_x = vx chassis_speeds, trans_y = vy chassis_speeds\<rparr>
      in drive d translation (omega chassis_speeds) False drive_open_loop)"

text \<open>\<^verbatim>\<open>SwerveDrive.drive\<close> of swervelib/impl/system.py.\<close>

definition drive_impl ::
  "SwerveDrive \<Rightarrow> Translation2d \<Rightarrow> real \<Rightarrow> bool \<Rightarrow> bool \<Rightarrow> SwerveDrive \<times> error option" where
  "drive_impl d translation rot field_relative open_loop =
     (let speeds = drive_speeds d translation rot field_relative;
          swerve_module_states = toSwerveModuleStates (kinematics d) speeds
      in desire_module_states_impl d swerve_module_states open_loop False)"

text \<open>The read accessors \<^verbatim>\<open>module_positions\<close> and \<^verbatim>\<open>pose\<close>.\<close>

definition module_positions :: "SwerveDrive \<Rightarrow> SwerveModulePosition list" where
  "module_positions d = map module_position (modules d)"

definition pose :: "SwerveDrive \<Rightarrow> Pose2d" where
  "pose d = getEstimatedPosition (odometry d)"

text \<open>
  \<^verbatim>\<open>SwerveDrive.periodic\<close>, the same in both files but for the plot of the pose on the
  dashboard's field, which is telemetry. \<open>now\<close> is what \<^verbatim>\<open>Timer.getFPGATimestamp()\<close>
  returns when it is read. The callback's result is tested for truth; a pose object is
  true and \<^verbatim>\<open>None\<close> is false.
\<close>

definition periodic :: "SwerveDrive \<Rightarrow> real \<Rightarrow> SwerveDrive" where
  "periodic d now =
     (let d1 = d\<lparr>odometry := update (odometry d) (heading (gyro d)) (module_positions d),
                 calls := calls d @ [Odometry_update (heading (gyro d)) (module_positions d)]\<rparr>;
          vision_pose = vision_pose_callback d1 (pose d1);
          d2 = d1\<lparr>calls := calls d1 @ [Vision_pose_callback (pose d1)]\<rparr>
      in case vision_pose of
           None \<Rightarrow> d2
         | Some p \<Rightarrow> d2\<lparr>odometry := addVisionMeasurement (odometry d2) p now,
                        calls := calls d2 @ [Odometry_addVisionMeasurement p now]\<rparr>)"

text \<open>
  \<^verbatim>\<open>reset_modules\<close> calls \<^verbatim>\<open>reset\<close> on every module, in order. What a module reads after
  its reset belongs to the actuator and is not modelled.
\<close>

definition reset_modules :: "SwerveDrive \<Rightarrow> SwerveDrive" where
  "reset_modules d = d\<lparr>calls := calls d @ map Module_reset [0..<length (modules d)]\<rparr>"

text \<open>
  \<^verbatim>\<open>zero_heading\<close> delegates to the gyro. Modelled from the spec: zeroing the heading sensor
  makes the current heading the zero direction, so the gyro reads zero afterwards.
\<close>

definition zero_heading :: "SwerveDrive \<Rightarrow> SwerveDrive" where
  "zero_heading d = d\<lparr>gyro := (gyro d)\<lparr>heading := 0\<rparr>, calls := calls d @ [Gyro_zero_heading]\<rparr>"

text \<open>\<^verbatim>\<open>reset_odometry\<close>, the same in both files.\<close>

definition reset_odometry :: "SwerveDrive \<Rightarrow> Pose2d \<Rightarrow> SwerveDrive" where
  "reset_odometry d p =
     d\<lparr>odometry := resetPosition (odometry d) (heading (gyro d)) (module_positions d) p,
       calls := calls d @ [Odometry_resetPosition (heading (gyro d)) (module_positions d) p]\<rparr>"

subsection \<open>Construction\<close>

text \<open>
  \<^verbatim>\<open>__init__\<close> looks the kinematics and estimator classes up by the number of modules
  (\<^verbatim>\<open>getattr\<close> raises AttributeError when wpimath has no class for that number); which
  numbers have a class is a parameter. An omitted \<^verbatim>\<open>vision_pose_callback\<close> argument is
  \<open>None\<close> here and stands for the default \<^verbatim>\<open>lambda _: None\<close>. The settle delay and the
  dashboard entries are left out.
\<close>

record wpimath =
  kinematics_class :: "nat \<Rightarrow> (Translation2d list \<Rightarrow> SwerveDriveKinematics) option"
  estimator_class :: "nat \<Rightarrow> (SwerveDriveKinematics \<Rightarrow> Rotation2d \<Rightarrow> SwerveModulePosition list \<Rightarrow>
                        Pose2d \<Rightarrow> PoseEstimator) option"

definition SwerveDrive_init ::
  "wpimath \<Rightarrow> SwerveModule list \<Rightarrow> Gyro \<Rightarrow> real \<Rightarrow> real \<Rightarrow> (Pose2d \<Rightarrow> Pose2d option) option \<Rightarrow>
   error + SwerveDrive" where
  "SwerveDrive_init lib mods g max_v max_av callback_arg =
     (let callback = (case callback_arg of None \<Rightarrow> (\<lambda>_. None) | Some f \<Rightarrow> f);
          g0 = g\<lparr>heading := 0\<rparr>;
          made = map Module_reset [0..<length mods] @ [Gyro_zero_heading]
      in case kinematics_class lib (length mods) of
           None \<Rightarrow> Inl AttributeError
         | Some new_kinematics \<Rightarrow>
             (let kin = new_kinematics (map placement mods)
              in case estimator_class lib (length mods) of
                   None \<Rightarrow> Inl AttributeError
                 | Some new_estimator \<Rightarrow>
                     Inr \<lparr>modules = mods, gyro = g0, vision_pose_callback = callback,
                          max_velocity = max_v, max_angular_velocity = max_av,
                          kinematics = kin,
                          odometry = new_estimator kin (heading g0) (map module_position mods) origin_pose,
                          calls = made\<rparr>))"

subsection \<open>Trajectory following\<close>

text \<open>
  \<^verbatim>\<open>greatest_distance_from_translations\<close>: Python's \<^verbatim>\<open>max\<close> raises ValueError on an
  empty sequence, and otherwise keeps the first item no later item is greater than.
\<close>

fun py_max :: "real list \<Rightarrow> error + real" where
  "py_max [] = Inl ValueError"
| "py_max (v # vs) = Inr (fold (\<lambda>item m. if item > m then item else m) vs v)"

definition greatest_distance_from_translations :: "Translation2d list \<Rightarrow> error + real" where
  "greatest_distance_from_translations translations =
     (let distances = map (\<lambda>trans. sqrt ((trans_x trans)\<^sup>2 + (trans_y trans)\<^sup>2)) translations
      in py_max distances)"

record TrajectoryFollowerParameters =
  max_drive_velocity :: real
  theta_kP :: real
  xy_kP :: real

text \<open>The four arguments \<^verbatim>\<open>PPHolonomicDriveController\<close> is constructed with.\<close>

record PPHolonomicDriveController =
  translation_constants :: real
  rotation_constants :: real
  max_module_speed :: real
  drive_base_radius :: real

text \<open>
  The command \<^verbatim>\<open>follow_trajectory_command\<close> returns: the path is known to the model by
  its preview starting pose only, and \<open>reset_before_starting\<close> is the pose of the
  \<^verbatim>\<open>reset_odometry\<close> call that runs before the command when \<^verbatim>\<open>first_path\<close> is set.
\<close>

record FollowPathCommand =
  starting_pose :: Pose2d
  controller :: PPHolonomicDriveController
  output_open_loop :: bool
  reset_before_starting :: "Pose2d option"

definition follow_trajectory_command ::
  "SwerveDrive \<Rightarrow> Pose2d \<Rightarrow> TrajectoryFollowerParameters \<Rightarrow> bool \<Rightarrow> bool \<Rightarrow> error + FollowPathCommand" where
  "follow_trajectory_command d path parameters first_path drive_open_loop =
     (case greatest_distance_from_translations (map placement (modules d)) of
        Inl e \<Rightarrow> Inl e
      | Inr radius \<Rightarrow>
          Inr \<lparr>starting_pose = path,
               controller = \<lparr>translation_constants = xy_kP parameters,
                             rotation_constants = theta_kP parameters,
                             max_module_speed = max_drive_velocity parameters,
                             drive_base_radius = radius\<rparr>,
               output_open_loop = drive_open_loop,
               reset_before_starting = (if first_path then Some path else None)\<rparr>)"

section \<open>The teleoperation command\<close>

text \<open>
  \<^verbatim>\<open>_TeleOpCommand\<close>. The dashboard setters assign attributes by name with \<^verbatim>\<open>setattr\<close>, so
  the boolean attributes of the instance are a dictionary from attribute name to value;
  reading an attribute that was never assigned raises AttributeError. The three input
  callables are functions of no argument.
\<close>

record TeleOpCommand =
  translation_input :: "unit \<Rightarrow> real"
  strafe_input :: "unit \<Rightarrow> real"
  rotation_input :: "unit \<Rightarrow> real"
  attributes :: "string \<rightharpoonup> bool"

definition getattr :: "TeleOpCommand \<Rightarrow> string \<Rightarrow> error + bool" where
  "getattr c name = (case attributes c name of None \<Rightarrow> Inl AttributeError | Some v \<Rightarrow> Inr v)"

definition setattr :: "TeleOpCommand \<Rightarrow> string \<Rightarrow> bool \<Rightarrow> TeleOpCommand" where
  "setattr c name v = c\<lparr>attributes := (attributes c)(name \<mapsto> v)\<rparr>"

text \<open>\<^verbatim>\<open>__init__\<close> assigns \<^verbatim>\<open>self.field_relative\<close> and \<^verbatim>\<open>self.open_loop\<close> in both files.\<close>

definition TeleOpCommand_init ::
  "(unit \<Rightarrow> real) \<Rightarrow> (unit \<Rightarrow> real) \<Rightarrow> (unit \<Rightarrow> real) \<Rightarrow> bool \<Rightarrow> bool \<Rightarrow> TeleOpCommand" where
  "TeleOpCommand_init tr st ro field_relative drive_open_loop =
     setattr (setattr \<lparr>translation_input = tr, strafe_input = st, rotation_input = ro,
                       attributes = Map.empty\<rparr>
                ''field_relative'' field_relative)
       ''open_loop'' drive_open_loop"

text \<open>
  \<^verbatim>\<open>execute\<close> with the \<^verbatim>\<open>drive\<close> of the file it belongs to: the sampled inputs are
  scaled by the velocity limits, the flags are read from the instance.
\<close>

definition execute_with ::
  "(SwerveDrive \<Rightarrow> Translation2d \<Rightarrow> real \<Rightarrow> bool \<Rightarrow> bool \<Rightarrow> SwerveDrive \<times> error option) \<Rightarrow>
   TeleOpCommand \<Rightarrow> SwerveDrive \<Rightarrow> SwerveDrive \<times> error option" where
  "execute_with drv c d =
     (let t = \<lparr>trans_x = translation_input c () * max_velocity d,
               trans_y = strafe_input c () * max_velocity d\<rparr>;
          r = rotation_input c () * max_angular_velocity d
      in case getattr c ''field_relative'' of
           Inl e \<Rightarrow> (d, Some e)
         | Inr field_relative \<Rightarrow>
             (case getattr c ''open_loop'' of
                Inl e \<Rightarrow> (d, Some e)
              | Inr open_loop \<Rightarrow> drv d t r field_relative open_loop))"

definition execute :: "TeleOpCommand \<Rightarrow> SwerveDrive \<Rightarrow> SwerveDrive \<times> error option" where
  "execute = execute_with drive"

definition execute_impl :: "TeleOpCommand \<Rightarrow> SwerveDrive \<Rightarrow> SwerveDrive \<times> error option" where
  "execute_impl = execute_with drive_impl"

text \<open>
  \<^verbatim>\<open>initSendable\<close> registers, per dashboard property name, a getter and a setter.
  In swervepy/subsystem.py the setter of \<^verbatim>\<open>"Open Loop"\<close> assigns the attribute
  \<^verbatim>\<open>drive_open_loop\<close>; in swervelib/impl/system.py it assigns \<^verbatim>\<open>open_loop\<close>.
\<close>

type_synonym boolean_property =
  "string \<times> (TeleOpCommand \<Rightarrow> error + bool) \<times> (TeleOpCommand \<Rightarrow> bool \<Rightarrow> TeleOpCommand)"

definition initSendable :: "boolean_property list" where
  "initSendable =
     [(''Field Relative'', (\<lambda>c. getattr c ''field_relative''), (\<lambda>c val. setattr c ''field_relative'' val)),
      (''Open Loop'', (\<lambda>c. getattr c ''open_loop''), (\<lambda>c val. setattr c ''drive_open_loop'' val))]"

definition initSendable_impl :: "boolean_property list" where
  "initSendable_impl =
     [(''Field Relative'', (\<lambda>c. getattr c ''field_relative''), (\<lambda>c val. setattr c ''field_relative'' val)),
      (''Open Loop'', (\<lambda>c. getattr c ''open_loop''), (\<lambda>c val. setattr c ''open_loop'' val))]"

text \<open>The dashboard writes a value to a property by calling the registered setter.\<close>

definition dashboard_write :: "boolean_property list \<Rightarrow> string \<Rightarrow> bool \<Rightarrow> TeleOpCommand \<Rightarrow> TeleOpCommand" where
  "dashboard_write properties name val c =
     (case map_of properties name of None \<Rightarrow> c | Some (getter, setter) \<Rightarrow> setter c val)"

definition dashboard_read :: "boolean_property list \<Rightarrow> string \<Rightarrow> TeleOpCommand \<Rightarrow> (error + bool) option" where
  "dashboard_read properties name c =
     (case map_of properties name of None \<Rightarrow> None | Some (getter, setter) \<Rightarrow> Some (getter c))"

text \<open>\<^verbatim>\<open>toggle_field_relative\<close> and \<^verbatim>\<open>toggle_open_loop\<close>, the external toggles.\<close>

definition toggle_field_relative :: "TeleOpCommand \<Rightarrow> error + TeleOpCommand" where
  "toggle_field_relative c =
     (case getattr c ''field_relative'' of
        Inl e \<Rightarrow> Inl e | Inr v \<Rightarrow> Inr (setattr c ''field_relative'' (\<not> v)))"

definition toggle_open_loop :: "TeleOpCommand \<Rightarrow> error + TeleOpCommand" where
  "toggle_open_loop c =
     (case getattr c ''open_loop'' of
        Inl e \<Rightarrow> Inl e | Inr v \<Rightarrow> Inr (setattr c ''open_loop'' (\<not> v)))"

section \<open>Sequences of operations\<close>

text \<open>
  The methods of the drivetrain as operations, and a run of them that stops at the
  first exception. \<open>Sense\<close> is the world's step between two calls: the gyro and the
  modules read new values.
\<close>

datatype operation =
    Periodic real
  | Drive Translation2d real bool bool
  | Drive_chassis_speeds ChassisSpeeds bool
  | Desire_module_states "SwerveModuleState list" bool bool
  | Reset_modules
  | Zero_heading
  | Reset_odometry Pose2d
  | Sense Rotation2d "(SwerveModulePosition \<times> SwerveModuleState) list"

definition sense :: "SwerveDrive \<Rightarrow> Rotation2d \<Rightarrow> (SwerveModulePosition \<times> SwerveModuleState) list \<Rightarrow> SwerveDrive" where
  "sense d h readings =
     (if length readings = length (modules d)
      then d\<lparr>gyro := (gyro d)\<lparr>heading := h\<rparr>,
             modules := map2 (\<lambda>m r. m\<lparr>module_position := fst r, module_state := snd r\<rparr>) (modules d) readings\<rparr>
      else d\<lparr>gyro := (gyro d)\<lparr>heading := h\<rparr>\<rparr>)"

fun step :: "operation \<Rightarrow> SwerveDrive \<Rightarrow> SwerveDrive \<times> error option" where
  "step (Periodic now) d = (periodic d now, None)"
| "step (Drive t r fr ol) d = drive d t r fr ol"
| "step (Drive_chassis_speeds s ol) d = drive_chassis_speeds d s ol"
| "step (Desire_module_states sts ol rip) d = desire_module_states d sts ol rip"
| "step Reset_modules d = (reset_modules d, None)"
| "step Zero_heading d = (zero_heading d, None)"
| "step (Reset_odometry p) d = (reset_odometry d p, None)"
| "step (Sense h readings) d = (sense d h readings, None)"

fun run :: "operation list \<Rightarrow> SwerveDrive \<Rightarrow> SwerveDrive \<times> error option" where
  "run [] d = (d, None)"
| "run (op # ops) d =
     (case step op d of
        (d', None) \<Rightarrow> run ops d'
      | (d', Some e) \<Rightarrow> (d', Some e))"

subsection \<open>Reading the record of calls\<close>

text \<open>The calls a step added, and the vision corrections and module commands among calls.\<close>

definition new_calls :: "SwerveDrive \<Rightarrow> SwerveDrive \<Rightarrow> call list" where
  "new_calls d d' = drop (length (calls d)) (calls d')"

fun vision_measurements :: "call list \<Rightarrow> (Pose2d \<times> real) list" where
  "vision_measurements [] = []"
| "vision_measurements (Odometry_addVisionMeasurement p ts # cs) = (p, ts) # vision_measurements cs"
| "vision_measurements (c # cs) = vision_measurements cs"

fun commands_to :: "nat \<Rightarrow> call list \<Rightarrow> (SwerveModuleState \<times> bool \<times> bool) list" where
  "commands_to i [] = []"
| "commands_to i (Module_desire_state j s ol rip # cs) =
     (if i = j then (s, ol, rip) # commands_to i cs else commands_to i cs)"
| "commands_to i (c # cs) = commands_to i cs"

fun rotate_in_place_flags :: "call list \<Rightarrow> bool list" where
  "rotate_in_place_flags [] = []"
| "rotate_in_place_flags (Module_desire_state j s ol rip # cs) = rip # rotate_in_place_flags cs"
| "rotate_in_place_flags (c # cs) = rotate_in_place_flags cs"

fun module_commands :: "call list \<Rightarrow> (nat \<times> SwerveModuleState) list" where
  "module_commands [] = []"
| "module_commands (Module_desire_state j s ol rip # cs) = (j, s) # module_commands cs"
| "module_commands (c # cs) = module_commands cs"

text \<open>
  What the spec allows to change the pose estimate when no vision correction arrives: the
  fusion update of \<^verbatim>\<open>periodic\<close> and an explicit \<^verbatim>\<open>reset_odometry\<close>. Every other operation
  leaves the estimator as it is.
\<close>

fun expected_odometry :: "operation \<Rightarrow> SwerveDrive \<Rightarrow> PoseEstimator" where
  "expected_odometry (Periodic now) d = update (odometry d) (heading (gyro d)) (module_positions d)"
| "expected_odometry (Reset_odometry p) d =
     resetPosition (odometry d) (heading (gyro d)) (module_positions d) p"
| "expected_odometry other d = odometry d"

section \<open>A test rig\<close>

text \<open>
  The rig of the spec's scenarios: modules at (\<plusminus>0.3, \<plusminus>0.3) m, a ceiling of 4 m/s, and two
  more modules for the six-module base. Its kinematics drives every wheel straight ahead
  at the chassis' forward speed, its estimator takes the gyro's heading at each update
  and a vision pose as it comes.
\<close>

definition rig_module :: "real \<Rightarrow> real \<Rightarrow> SwerveModule" where
  "rig_module px py =
     \<lparr>placement = \<lparr>trans_x = px, trans_y = py\<rparr>,
      module_position = \<lparr>distance = 0, position_angle = 0\<rparr>,
      module_state = \<lparr>speed = 0, angle = 0\<rparr>\<rparr>"

definition rig_modules :: "SwerveModule list" where
  "rig_modules =
     [rig_module (3/10) (3/10), rig_module (3/10) (-3/10),
      rig_module (-3/10) (3/10), rig_module (-3/10) (-3/10),
      rig_module 0 (4/10), rig_module 0 (-4/10)]"

definition rig_kinematics :: "Translation2d list \<Rightarrow> SwerveDriveKinematics" where
  "rig_kinematics ps =
     \<lparr>placements = ps,
      toSwerveModuleStates = (\<lambda>s. map (\<lambda>p. \<lparr>speed = vx s, angle = 0\<rparr>) ps)\<rparr>"

definition rig_estimator ::
  "SwerveDriveKinematics \<Rightarrow> Rotation2d \<Rightarrow> SwerveModulePosition list \<Rightarrow> Pose2d \<Rightarrow> PoseEstimator" where
  "rig_estimator kin h ps p =
     \<lparr>estimate = p, baseline_heading = h, baseline_positions = ps,
      fusion = (\<lambda>est h0 ps0 h1 ps1. est\<lparr>rotation := h1\<rparr>),
      correction = (\<lambda>est vision ts. vision)\<rparr>"

definition rig_wpimath :: wpimath where
  "rig_wpimath =
     \<lparr>kinematics_class = (\<lambda>n. if n = 2 \<or> n = 3 \<or> n = 4 \<or> n = 6 then Some rig_kinematics else None),
      estimator_class = (\<lambda>n. if n = 2 \<or> n = 3 \<or> n = 4 \<or> n = 6 then Some rig_estimator else None)\<rparr>"

text \<open>The drivetrain that \<^verbatim>\<open>__init__\<close> leaves for the first \<open>n\<close> modules of the rig.\<close>

definition rig :: "nat \<Rightarrow> SwerveDrive" where
  "rig n =
     \<lparr>modules = take n rig_modules, gyro = \<lparr>heading = 0\<rparr>, vision_pose_callback = (\<lambda>_. None),
      max_velocity = 4, max_angular_velocity = 3,
      kinematics = rig_kinematics (map placement (take n rig_modules)),
      odometry = rig_estimator (rig_kinematics (map placement (take n rig_modules))) 0
                   (map module_position (take n rig_modules)) origin_pose,
      calls = map Module_reset [0..<length (take n rig_modules)] @ [Gyro_zero_heading]\<rparr>"

definition straight :: "real \<Rightarrow> SwerveModuleState" where
  "straight v = \<lparr>speed = v, angle = 0\<rparr>"

section \<open>Fan-out of module commands\<close>

lemma desire_loop_upt:
  "n \<le> length (modules d) \<Longrightarrow> n \<le> length sts \<Longrightarrow> k \<le> n \<Longrightarrow>
   desire_loop [k..<n] sts ol rip d =
     (d\<lparr>calls := calls d @ map (\<lambda>i. Module_desire_state i (sts ! i) ol rip) [k..<n]\<rparr>, None)"
proof (induction "n - k" arbitrary: k d)
  case 0
  then show ?case by simp
next
  case (Suc m)
  then have lt: "k < n" by linarith
  have step: "[k..<n] = k # [Suc k..<n]"
    using lt by (simp add: upt_conv_Cons)
  have m: "m = n - Suc k" using Suc.hyps(2) by linarith
  let ?d = "d\<lparr>calls := calls d @ [Module_desire_state k (sts ! k) ol rip]\<rparr>"
  have IH: "desire_loop [Suc k..<n] sts ol rip ?d =
      (?d\<lparr>calls := calls ?d @ map (\<lambda>i. Module_desire_state i (sts ! i) ol rip) [Suc k..<n]\<rparr>, None)"
    using Suc.hyps(1)[OF m, of ?d] Suc.prems lt by simp
  show ?case
    using lt Suc.prems IH by (simp add: step)
qed

lemma fold_max_Max:
  fixes f :: "'a \<Rightarrow> real"
  shows "fold (\<lambda>s m. max m (f s)) xs a = Max (insert a (f ` set xs))"
proof (induction xs arbitrary: a)
  case Nil
  then show ?case by simp
next
  case (Cons x xs)
  have "Max (insert (max a (f x)) (f ` set xs)) = Max (insert a (insert (f x) (f ` set xs)))"
  proof (cases "xs = []")
    case True
    then show ?thesis by (simp add: max.commute)
  next
    case False
    then have ne: "f ` set xs \<noteq> {}" by simp
    have fin: "finite (f ` set xs)" by simp
    show ?thesis
      using ne fin by (simp add: max.assoc)
  qed
  then show ?case using Cons.IH[of "max a (f x)"] by simp
qed

lemma max_abs_speed_Max:
  assumes "states \<noteq> []"
  shows "max_abs_speed states = Max ((\<lambda>s. \<bar>speed s\<bar>) ` set states)"
proof -
  let ?S = "(\<lambda>s. \<bar>speed s\<bar>) ` set states"
  have fin: "finite ?S" and ne: "?S \<noteq> {}" using assms by simp_all
  have "0 \<le> Max ?S"
  proof -
    obtain s where "s \<in> set states" using assms by (cases states) auto
    then have "\<bar>speed s\<bar> \<le> Max ?S" using fin by (intro Max_ge) auto
    then show ?thesis by linarith
  qed
  then have "Max (insert 0 ?S) = Max ?S"
    using fin ne by (simp add: max_def)
  then show ?thesis
    by (simp add: max_abs_speed_def fold_max_Max)
qed

lemma length_desaturateWheelSpeeds [simp]:
  "length (desaturateWheelSpeeds states attainable) = length states"
  by (simp add: desaturateWheelSpeeds_def Let_def)

lemma desire_module_states_fanout:
  assumes "length states = length (modules d)"
  shows "desire_module_states d states ol rip =
     (d\<lparr>calls := calls d @
          map (\<lambda>i. Module_desire_state i (desaturateWheelSpeeds states (max_velocity d) ! i) ol rip)
            [0..<length (modules d)]\<rparr>, None)"
  using assms by (simp add: desire_module_states_def desire_loop_upt)

lemma desire_module_states_impl_four:
  assumes "length (modules d) = 4"
  shows "desire_module_states_impl d states ol rip = desire_module_states d states ol rip"
  using assms by (simp add: desire_module_states_def desire_module_states_impl_def)

lemma desaturate_bound:
  assumes "0 \<le> lmt" "s \<in> set (desaturateWheelSpeeds states lmt)"
  shows "\<bar>speed s\<bar> \<le> lmt"
proof (cases "states = []")
  case True
  then show ?thesis using assms by (simp add: desaturateWheelSpeeds_def Let_def max_abs_speed_def)
next
  case False
  let ?M = "Max ((\<lambda>s. \<bar>speed s\<bar>) ` set states)"
  have M: "max_abs_speed states = ?M" using False by (rule max_abs_speed_Max)
  have le: "\<And>t. t \<in> set states \<Longrightarrow> \<bar>speed t\<bar> \<le> ?M" by (intro Max_ge) auto
  show ?thesis
  proof (cases "?M > lmt")
    case True
    then have pos: "0 < ?M" using assms(1) by linarith
    from assms(2) True M obtain t where t: "t \<in> set states" and s: "speed s = speed t * (lmt / ?M)"
      by (auto simp: desaturateWheelSpeeds_def Let_def)
    have "\<bar>speed s\<bar> = \<bar>speed t\<bar> * lmt / ?M"
      using s pos assms(1) by (simp add: abs_mult)
    also have "\<dots> \<le> ?M * lmt / ?M"
      using le[OF t] assms(1) pos by (intro divide_right_mono mult_right_mono) auto
    also have "\<dots> = lmt" using pos by simp
    finally show ?thesis .
  next
    case False
    then have "s \<in> set states" using assms(2) M by (simp add: desaturateWheelSpeeds_def Let_def)
    then have "\<bar>speed s\<bar> \<le> ?M" by (rule le)
    then show ?thesis using False by linarith
  qed
qed

lemma new_calls_append [simp]: "new_calls d (d\<lparr>calls := calls d @ cs\<rparr>) = cs"
  by (simp add: new_calls_def)

lemma module_commands_fanout:
  "n \<le> length out \<Longrightarrow>
   module_commands (map (\<lambda>i. Module_desire_state i (out ! i) ol rip) [k..<n]) = zip [k..<n] (drop k out)"
proof (induction "n - k" arbitrary: k)
  case 0
  then show ?case by simp
next
  case (Suc m)
  then have lt: "k < n" by linarith
  have a: "[k..<n] = k # [Suc k..<n]" using lt by (simp add: upt_conv_Cons)
  have b: "drop k out = out ! k # drop (Suc k) out"
    using lt Suc.prems by (simp add: Cons_nth_drop_Suc)
  have "m = n - Suc k" using Suc.hyps(2) by linarith
  from Suc.hyps(1)[OF this Suc.prems] show ?case
    by (simp add: a b)
qed

section \<open>Desaturation\<close>

text \<open>
  Claim C1. For a call of \<^verbatim>\<open>desire_module_states\<close> with one state per module, speeds
  \<open>v\<^sub>1 \<dots> v\<^sub>n\<close> and the ceiling \<open>max_velocity\<close>: the call raises nothing, and module \<open>i\<close> is
  commanded the input state \<open>i\<close> with its speed multiplied by
  \<open>max_velocity / max |v\<^sub>j|\<close> if \<open>max |v\<^sub>j| > max_velocity\<close>, and the input state \<open>i\<close>
  unchanged otherwise. For a ceiling that is not negative no commanded speed exceeds it in
  magnitude. The method of swervelib/impl/system.py does the same on a four-module base.
\<close>

theorem desire_module_states_desaturates:
  assumes "states \<noteq> []" and "length states = length (modules d)"
  shows
    "snd (desire_module_states d states ol rip) = None \<and>
     module_commands (new_calls d (fst (desire_module_states d states ol rip))) =
       zip [0..<length states]
         (if Max ((\<lambda>s. \<bar>speed s\<bar>) ` set states) > max_velocity d
          then map (\<lambda>s. s\<lparr>speed := speed s * (max_velocity d / Max ((\<lambda>s. \<bar>speed s\<bar>) ` set states))\<rparr>) states
          else states) \<and>
     (0 \<le> max_velocity d \<longrightarrow>
        (\<forall>c \<in> set (module_commands (new_calls d (fst (desire_module_states d states ol rip)))).
           \<bar>speed (snd c)\<bar> \<le> max_velocity d)) \<and>
     (length (modules d) = 4 \<longrightarrow>
        desire_module_states_impl d states ol rip = desire_module_states d states ol rip)"
proof -
  let ?out = "desaturateWheelSpeeds states (max_velocity d)"
  let ?M = "Max ((\<lambda>s. \<bar>speed s\<bar>) ` set states)"
  have run: "desire_module_states d states ol rip =
      (d\<lparr>calls := calls d @ map (\<lambda>i. Module_desire_state i (?out ! i) ol rip) [0..<length (modules d)]\<rparr>, None)"
    using assms(2) by (rule desire_module_states_fanout)
  have cmds: "module_commands (new_calls d (fst (desire_module_states d states ol rip))) =
      zip [0..<length states] ?out"
    using module_commands_fanout[where n="length (modules d)" and out="?out" and k=0 and ol=ol and rip=rip] assms(2)
    by (simp add: run)
  have out: "?out = (if ?M > max_velocity d
          then map (\<lambda>s. s\<lparr>speed := speed s * (max_velocity d / ?M)\<rparr>) states else states)"
    using assms(1) by (simp add: desaturateWheelSpeeds_def Let_def max_abs_speed_Max)
  have bound: "0 \<le> max_velocity d \<Longrightarrow> c \<in> set (zip [0..<length states] ?out) \<Longrightarrow>
      \<bar>speed (snd c)\<bar> \<le> max_velocity d" for c
  proof -
    assume nn: "0 \<le> max_velocity d" and c: "c \<in> set (zip [0..<length states] ?out)"
    then have "snd c \<in> set ?out" by (cases c) (auto dest: set_zip_rightD)
    with nn show ?thesis by (rule desaturate_bound)
  qed
  have c1: "snd (desire_module_states d states ol rip) = None"
    by (simp add: run)
  have c2: "module_commands (new_calls d (fst (desire_module_states d states ol rip))) =
       zip [0..<length states]
         (if ?M > max_velocity d
          then map (\<lambda>s. s\<lparr>speed := speed s * (max_velocity d / ?M)\<rparr>) states
          else states)"
    using cmds out by simp
  have c3: "0 \<le> max_velocity d \<longrightarrow>
        (\<forall>c \<in> set (module_commands (new_calls d (fst (desire_module_states d states ol rip)))).
           \<bar>speed (snd c)\<bar> \<le> max_velocity d)"
    using bound by (simp only: cmds) blast
  have c4: "length (modules d) = 4 \<longrightarrow>
        desire_module_states_impl d states ol rip = desire_module_states d states ol rip"
    using desire_module_states_impl_four[of d states ol rip] by blast
  from c1 c2 c3 c4 show ?thesis by blast
qed


lemma rig_modules_length [simp]: "length (modules (rig n)) = min n 6"
  by (simp add: rig_def rig_modules_def)

lemma rig_max_velocity [simp]: "max_velocity (rig n) = 4"
  by (simp add: rig_def)

theorem desire_module_states_desaturates_witness:
  "module_commands (new_calls (rig 4)
      (fst (desire_module_states (rig 4) [straight 2, straight (-8), straight 4, straight 6] True False))) =
     [(0, straight 1), (1, straight (-4)), (2, straight 2), (3, straight 3)] \<and>
   desire_module_states_impl (rig 4) [straight 2, straight (-8), straight 4, straight 6] True False =
     desire_module_states (rig 4) [straight 2, straight (-8), straight 4, straight 6] True False"
proof -
  let ?sts = "[straight 2, straight (-8), straight 4, straight 6]"
  have ne: "?sts \<noteq> []" by simp
  have len: "length ?sts = length (modules (rig 4))" by simp
  have M: "Max ((\<lambda>s. \<bar>speed s\<bar>) ` set ?sts) = 8" by (simp add: straight_def)
  have lim: "max_velocity (rig 4) = 4" by (simp add: rig_def)
  have four: "length (modules (rig 4)) = 4" by simp
  from desire_module_states_desaturates[OF ne len, of True False] four
  show ?thesis
    by (simp add: M lim straight_def upt_rec)
qed


section \<open>One command per module\<close>

text \<open>
  With one state per module, the method of swervepy/subsystem.py commands every module
  once, in the order of the module tuple, for every number of modules.
\<close>

lemma desire_module_states_commands_each_module_once:
  assumes "length states = length (modules d)" and "i < length (modules d)"
  shows "commands_to i (new_calls d (fst (desire_module_states d states ol rip))) =
           [(desaturateWheelSpeeds states (max_velocity d) ! i, ol, rip)]"
proof -
  have one: "k \<le> n \<Longrightarrow> commands_to i (map (\<lambda>j. Module_desire_state j (out ! j) ol rip) [k..<n]) =
      (if k \<le> i \<and> i < n then [(out ! i, ol, rip)] else [])" for k n out
  proof (induction "n - k" arbitrary: k)
    case 0
    then show ?case by simp
  next
    case (Suc m)
    then have lt: "k < n" by linarith
    have a: "[k..<n] = k # [Suc k..<n]" using lt by (simp add: upt_conv_Cons)
    have "m = n - Suc k" using Suc.hyps(2) by linarith
    from Suc.hyps(1)[OF this] lt show ?case
      by (auto simp: a)
  qed
  show ?thesis
    using assms one[of 0 "length (modules d)" "desaturateWheelSpeeds states (max_velocity d)"]
    by (simp add: desire_module_states_fanout)
qed

lemma upt_0_4: "[0..<4] = [0, 1, 2, 3]"
  by (simp add: upt_conv_Cons)

lemma upt_0_3: "[0..<3] = [0, 1, 2]"
  by (simp add: upt_conv_Cons)

lemma upt_0_6: "[0..<6] = [0, 1, 2, 3, 4, 5]"
  by (simp add: upt_conv_Cons)

text \<open>
  Claim C2. The claim fails for the method of swervelib/impl/system.py, whose loop is
  \<^verbatim>\<open>range(4)\<close>: on the three-module rig it commands modules 0 to 2 and raises IndexError
  at index 3, where the method of swervepy/subsystem.py raises nothing; on the six-module
  rig it commands modules 0 to 3 only and returns normally.
\<close>

theorem desire_module_states_impl_range_four:
  "snd (desire_module_states_impl (rig 3) [straight 1, straight 1, straight 1] False True) = Some IndexError \<and>
   module_commands (new_calls (rig 3)
      (fst (desire_module_states_impl (rig 3) [straight 1, straight 1, straight 1] False True))) =
     [(0, straight 1), (1, straight 1), (2, straight 1)] \<and>
   snd (desire_module_states (rig 3) [straight 1, straight 1, straight 1] False True) = None \<and>
   snd (desire_module_states_impl (rig 6)
      [straight 1, straight 1, straight 1, straight 1, straight 1, straight 1] False True) = None \<and>
   module_commands (new_calls (rig 6)
      (fst (desire_module_states_impl (rig 6)
         [straight 1, straight 1, straight 1, straight 1, straight 1, straight 1] False True))) =
     [(0, straight 1), (1, straight 1), (2, straight 1), (3, straight 1)] \<and>
   module_commands (new_calls (rig 6)
      (fst (desire_module_states (rig 6)
         [straight 1, straight 1, straight 1, straight 1, straight 1, straight 1] False True))) =
     [(0, straight 1), (1, straight 1), (2, straight 1), (3, straight 1), (4, straight 1), (5, straight 1)]"
  by (simp add: desire_module_states_impl_def desire_module_states_def desaturateWheelSpeeds_def
      max_abs_speed_def straight_def upt_0_4 upt_0_3 upt_0_6 new_calls_def)

section \<open>Driving\<close>

lemma drive_speeds_zero_heading:
  assumes "heading (gyro d) = 0"
  shows "drive_speeds d t r True = drive_speeds d t r False"
  using assms by (simp add: drive_speeds_def fromFieldRelativeSpeeds_def)

text \<open>
  Claim C3. When the gyro's heading is zero, \<^verbatim>\<open>drive\<close> with \<^verbatim>\<open>field_relative=True\<close> and
  with \<^verbatim>\<open>field_relative=False\<close> compute the same module-state list and have the same
  effect, for every translation, rotation rate and open-loop flag, in both files.
\<close>

theorem drive_frames_agree_at_zero_heading:
  assumes "heading (gyro d) = 0"
  shows "toSwerveModuleStates (kinematics d) (drive_speeds d t r True) =
           toSwerveModuleStates (kinematics d) (drive_speeds d t r False) \<and>
         drive d t r True ol = drive d t r False ol \<and>
         drive_impl d t r True ol = drive_impl d t r False ol"
  using drive_speeds_zero_heading[OF assms, of t r]
  by (simp add: drive_def drive_impl_def)

lemma rig_heading [simp]: "heading (gyro (rig n)) = 0"
  by (simp add: rig_def)

lemma rig_four_states [simp]:
  "toSwerveModuleStates (kinematics (rig 4)) s = [straight (vx s), straight (vx s), straight (vx s), straight (vx s)]"
  by (simp add: rig_def rig_kinematics_def rig_modules_def straight_def)

lemma desire_module_states_rig_four:
  "desire_module_states (rig 4) [a, b, c, e] ol rip =
     ((rig 4)\<lparr>calls := calls (rig 4) @
         [Module_desire_state 0 (desaturateWheelSpeeds [a, b, c, e] 4 ! 0) ol rip,
          Module_desire_state 1 (desaturateWheelSpeeds [a, b, c, e] 4 ! 1) ol rip,
          Module_desire_state 2 (desaturateWheelSpeeds [a, b, c, e] 4 ! 2) ol rip,
          Module_desire_state 3 (desaturateWheelSpeeds [a, b, c, e] 4 ! 3) ol rip]\<rparr>, None)"
  using desire_module_states_fanout[of "[a, b, c, e]" "rig 4" ol rip]
  by (simp add: upt_0_4)

lemma desaturate_straight_two [simp]:
  "desaturateWheelSpeeds [straight 2, straight 2, straight 2, straight 2] 4 =
     [straight 2, straight 2, straight 2, straight 2]"
  by (simp add: desaturateWheelSpeeds_def max_abs_speed_def straight_def)

theorem drive_frames_agree_at_zero_heading_witness:
  "heading (gyro (rig 4)) = 0 \<and>
   drive (rig 4) \<lparr>trans_x = 2, trans_y = 0\<rparr> 0 True True =
     drive (rig 4) \<lparr>trans_x = 2, trans_y = 0\<rparr> 0 False True \<and>
   module_commands (new_calls (rig 4) (fst (drive (rig 4) \<lparr>trans_x = 2, trans_y = 0\<rparr> 0 True True))) =
     [(0, straight 2), (1, straight 2), (2, straight 2), (3, straight 2)]"
proof -
  have h: "heading (gyro (rig 4)) = 0" by simp
  have "module_commands (new_calls (rig 4) (fst (drive (rig 4) \<lparr>trans_x = 2, trans_y = 0\<rparr> 0 False True))) =
     [(0, straight 2), (1, straight 2), (2, straight 2), (3, straight 2)]"
    by (simp add: drive_def drive_speeds_def desire_module_states_rig_four)
  with h drive_frames_agree_at_zero_heading[OF h, of "\<lparr>trans_x = 2, trans_y = 0\<rparr>" 0 True]
  show ?thesis by simp
qed

lemma ChassisSpeeds_rebuilt: "\<lparr>vx = vx s, vy = vy s, omega = omega s\<rparr> = (s :: ChassisSpeeds)"
  by (cases s) simp

text \<open>
  Claim C4. The chassis-speed overload of \<^verbatim>\<open>drive\<close> has the effect of the primary
  \<^verbatim>\<open>drive\<close> called with \<^verbatim>\<open>Translation2d(s.vx, s.vy)\<close>, \<^verbatim>\<open>s.omega\<close> and
  \<^verbatim>\<open>field_relative=False\<close>; that is, the given chassis speed goes to inverse kinematics as
  it is.
\<close>

theorem drive_chassis_speeds_is_robot_relative_drive:
  "drive_chassis_speeds d s ol = drive d \<lparr>trans_x = vx s, trans_y = vy s\<rparr> (omega s) False ol \<and>
   drive_chassis_speeds d s ol = desire_module_states d (toSwerveModuleStates (kinematics d) s) ol False"
  by (simp add: drive_chassis_speeds_def drive_def drive_speeds_def ChassisSpeeds_rebuilt)

lemma rotate_in_place_flags_append [simp]:
  "rotate_in_place_flags (xs @ ys) = rotate_in_place_flags xs @ rotate_in_place_flags ys"
  by (induction xs rule: rotate_in_place_flags.induct) simp_all

lemma vision_measurements_append [simp]:
  "vision_measurements (xs @ ys) = vision_measurements xs @ vision_measurements ys"
  by (induction xs rule: vision_measurements.induct) simp_all

text \<open>
  Whatever the index range and the states, the loop changes nothing but the record of
  calls, and adds only module commands that carry the flags it was given.
\<close>

lemma desire_loop_effect:
  "\<exists>cs. fst (desire_loop js sts ol rip d) = d\<lparr>calls := calls d @ cs\<rparr> \<and>
        vision_measurements cs = [] \<and>
        rotate_in_place_flags cs = replicate (length cs) rip \<and>
        length cs \<le> length js"
proof (induction js arbitrary: d)
  case Nil
  have "fst (desire_loop [] sts ol rip d) = d\<lparr>calls := calls d @ []\<rparr>" by simp
  then show ?case by (intro exI[of _ "[]"]) simp
next
  case (Cons i js)
  show ?case
  proof (cases "i < length (modules d) \<and> i < length sts")
    case True
    let ?c = "Module_desire_state i (sts ! i) ol rip"
    let ?d = "d\<lparr>calls := calls d @ [?c]\<rparr>"
    from Cons.IH[of ?d] obtain cs where
      cs: "fst (desire_loop js sts ol rip ?d) = ?d\<lparr>calls := calls ?d @ cs\<rparr>"
        "vision_measurements cs = []" "rotate_in_place_flags cs = replicate (length cs) rip"
        "length cs \<le> length js"
      by blast
    have "fst (desire_loop (i # js) sts ol rip d) = d\<lparr>calls := calls d @ (?c # cs)\<rparr>"
      using True cs(1) by simp
    moreover have "vision_measurements (?c # cs) = []" using cs(2) by simp
    moreover have "rotate_in_place_flags (?c # cs) = replicate (length (?c # cs)) rip"
      using cs(3) by simp
    moreover have "length (?c # cs) \<le> length (i # js)" using cs(4) by simp
    ultimately show ?thesis by blast
  next
    case False
    then have "fst (desire_loop (i # js) sts ol rip d) = d\<lparr>calls := calls d @ []\<rparr>" by auto
    then show ?thesis by (intro exI[of _ "[]"]) simp
  qed
qed

lemma desire_module_states_flags:
  "set (rotate_in_place_flags (new_calls d (fst (desire_module_states d states ol rip)))) \<subseteq> {rip}"
proof -
  obtain cs where "fst (desire_module_states d states ol rip) = d\<lparr>calls := calls d @ cs\<rparr>"
    and "rotate_in_place_flags cs = replicate (length cs) rip"
    unfolding desire_module_states_def Let_def using desire_loop_effect by blast
  then show ?thesis by (simp add: set_replicate_conv_if)
qed

lemma desire_module_states_impl_flags:
  "set (rotate_in_place_flags (new_calls d (fst (desire_module_states_impl d states ol rip)))) \<subseteq> {rip}"
proof -
  obtain cs where "fst (desire_module_states_impl d states ol rip) = d\<lparr>calls := calls d @ cs\<rparr>"
    and "rotate_in_place_flags cs = replicate (length cs) rip"
    unfolding desire_module_states_impl_def Let_def using desire_loop_effect by blast
  then show ?thesis by (simp add: set_replicate_conv_if)
qed

text \<open>
  Claim C5. Every \<^verbatim>\<open>drive\<close> call, of either overload and in both files, passes the
  module-state list that inverse kinematics gives for the composed chassis speed to
  \<^verbatim>\<open>desire_module_states\<close> with \<^verbatim>\<open>rotate_in_place=False\<close>, so every module command it
  causes carries that flag as false; \<^verbatim>\<open>desire_module_states\<close> called with its defaults
  commands the modules with \<^verbatim>\<open>rotate_in_place=True\<close> (and closed-loop velocity control).
\<close>

theorem drive_never_rotates_in_place:
  "drive d t r fr ol =
     desire_module_states d (toSwerveModuleStates (kinematics d) (drive_speeds d t r fr)) ol False \<and>
   drive_chassis_speeds d s ol =
     desire_module_states d (toSwerveModuleStates (kinematics d) s) ol False \<and>
   drive_impl d t r fr ol =
     desire_module_states_impl d (toSwerveModuleStates (kinematics d) (drive_speeds d t r fr)) ol False \<and>
   set (rotate_in_place_flags (new_calls d (fst (drive d t r fr ol)))) \<subseteq> {False} \<and>
   set (rotate_in_place_flags (new_calls d (fst (drive_chassis_speeds d s ol)))) \<subseteq> {False} \<and>
   set (rotate_in_place_flags (new_calls d (fst (drive_impl d t r fr ol)))) \<subseteq> {False} \<and>
   desire_module_states_default d states = desire_module_states d states False True \<and>
   desire_module_states_impl_default d states = desire_module_states_impl d states False True \<and>
   set (rotate_in_place_flags (new_calls d (fst (desire_module_states_default d states)))) \<subseteq> {True} \<and>
   set (rotate_in_place_flags (new_calls d (fst (desire_module_states_impl_default d states)))) \<subseteq> {True}"
proof -
  have a: "drive d t r fr ol =
     desire_module_states d (toSwerveModuleStates (kinematics d) (drive_speeds d t r fr)) ol False"
    by (simp add: drive_def)
  have b: "drive_chassis_speeds d s ol =
     desire_module_states d (toSwerveModuleStates (kinematics d) s) ol False"
    by (simp add: drive_chassis_speeds_def drive_def drive_speeds_def ChassisSpeeds_rebuilt)
  have c: "drive_impl d t r fr ol =
     desire_module_states_impl d (toSwerveModuleStates (kinematics d) (drive_speeds d t r fr)) ol False"
    by (simp add: drive_impl_def)
  have e: "desire_module_states_default d states = desire_module_states d states False True"
    by (simp add: desire_module_states_default_def)
  have f: "desire_module_states_impl_default d states = desire_module_states_impl d states False True"
    by (simp add: desire_module_states_impl_default_def)
  show ?thesis
    unfolding a b c e f
    using desire_module_states_flags desire_module_states_impl_flags by simp
qed

theorem drive_never_rotates_in_place_witness:
  "rotate_in_place_flags (new_calls (rig 4) (fst (drive (rig 4) \<lparr>trans_x = 2, trans_y = 0\<rparr> 0 True True))) =
     [False, False, False, False] \<and>
   rotate_in_place_flags (new_calls (rig 4)
      (fst (desire_module_states_default (rig 4) [straight 2, straight 2, straight 2, straight 2]))) =
     [True, True, True, True]"
proof -
  note inst = drive_never_rotates_in_place[of "rig 4" "\<lparr>trans_x = 2, trans_y = 0\<rparr>" 0 True True
      "\<lparr>vx = 2, vy = 0, omega = 0\<rparr>" "[straight 2, straight 2, straight 2, straight 2]"]
  have 1: "drive (rig 4) \<lparr>trans_x = 2, trans_y = 0\<rparr> 0 True True =
      desire_module_states (rig 4) [straight 2, straight 2, straight 2, straight 2] True False"
    using inst by (simp add: drive_speeds_def fromFieldRelativeSpeeds_def)
  have 2: "desire_module_states_default (rig 4) [straight 2, straight 2, straight 2, straight 2] =
      desire_module_states (rig 4) [straight 2, straight 2, straight 2, straight 2] False True"
    using inst by simp
  show ?thesis
    unfolding 1 2 by (simp add: desire_module_states_rig_four)
qed

section \<open>The dashboard properties of the teleoperation command\<close>

lemma getattr_setattr:
  "getattr (setattr c name v) name' = (if name' = name then Inr v else getattr c name')"
  by (simp add: getattr_def setattr_def)

lemma setattr_inputs [simp]:
  "translation_input (setattr c name v) = translation_input c"
  "strafe_input (setattr c name v) = strafe_input c"
  "rotation_input (setattr c name v) = rotation_input c"
  by (simp_all add: setattr_def)

lemma open_loop_write: "dashboard_write initSendable ''Open Loop'' v c = setattr c ''drive_open_loop'' v"
  by (simp add: dashboard_write_def initSendable_def)

lemma open_loop_write_impl: "dashboard_write initSendable_impl ''Open Loop'' v c = setattr c ''open_loop'' v"
  by (simp add: dashboard_write_def initSendable_impl_def)

lemma field_relative_write:
  "dashboard_write initSendable ''Field Relative'' v c = setattr c ''field_relative'' v"
  "dashboard_write initSendable_impl ''Field Relative'' v c = setattr c ''field_relative'' v"
  by (simp_all add: dashboard_write_def initSendable_def initSendable_impl_def)

text \<open>
  In swervelib/impl/system.py a write to \<^verbatim>\<open>"Open Loop"\<close> reaches the flag that \<^verbatim>\<open>execute\<close>
  passes to \<^verbatim>\<open>drive\<close>, and in both files a write to \<^verbatim>\<open>"Field Relative"\<close> does.
\<close>

lemma execute_with_flags:
  assumes "getattr c ''field_relative'' = Inr fr" and "getattr c ''open_loop'' = Inr ol"
  shows "execute_with drv c d =
     drv d \<lparr>trans_x = translation_input c () * max_velocity d,
            trans_y = strafe_input c () * max_velocity d\<rparr>
       (rotation_input c () * max_angular_velocity d) fr ol"
  using assms by (simp add: execute_with_def)

lemma open_loop_write_impl_reaches_drive:
  assumes "getattr c ''field_relative'' = Inr fr"
  shows "execute_impl (dashboard_write initSendable_impl ''Open Loop'' v c) d =
     drive_impl d \<lparr>trans_x = translation_input c () * max_velocity d,
                   trans_y = strafe_input c () * max_velocity d\<rparr>
       (rotation_input c () * max_angular_velocity d) fr v"
  using assms
  by (simp add: execute_impl_def open_loop_write_impl execute_with_flags[where fr=fr and ol=v]
      getattr_setattr)

lemma field_relative_write_reaches_drive:
  assumes "getattr c ''open_loop'' = Inr ol"
  shows "execute (dashboard_write initSendable ''Field Relative'' v c) d =
     drive d \<lparr>trans_x = translation_input c () * max_velocity d,
              trans_y = strafe_input c () * max_velocity d\<rparr>
       (rotation_input c () * max_angular_velocity d) v ol"
    and "execute_impl (dashboard_write initSendable_impl ''Field Relative'' v c) d =
     drive_impl d \<lparr>trans_x = translation_input c () * max_velocity d,
              trans_y = strafe_input c () * max_velocity d\<rparr>
       (rotation_input c () * max_angular_velocity d) v ol"
  using assms
  by (simp_all add: execute_def execute_impl_def field_relative_write
      execute_with_flags[where fr=v and ol=ol] getattr_setattr)

lemma toggle_open_loop_reaches_flag:
  assumes "getattr c ''open_loop'' = Inr b"
  shows "\<exists>c'. toggle_open_loop c = Inr c' \<and> getattr c' ''open_loop'' = Inr (\<not> b)"
  using assms by (simp add: toggle_open_loop_def getattr_setattr)

text \<open>
  Claim C6. The claim fails in swervepy/subsystem.py: the setter registered for
  \<^verbatim>\<open>"Open Loop"\<close> assigns the attribute \<^verbatim>\<open>drive_open_loop\<close>, which nothing reads, so a
  dashboard write leaves the flag \<^verbatim>\<open>open_loop\<close> and the next \<^verbatim>\<open>execute\<close> as they were.
  On a command built with open loop off, a write of true is read back as false and the
  external toggle, not the write, changes what \<^verbatim>\<open>execute\<close> does.
\<close>

theorem open_loop_write_misses_flag:
  "getattr (dashboard_write initSendable ''Open Loop'' v c) ''open_loop'' = getattr c ''open_loop'' \<and>
   execute (dashboard_write initSendable ''Open Loop'' v c) d = execute c d \<and>
   getattr (dashboard_write initSendable ''Open Loop'' v c) ''drive_open_loop'' = Inr v \<and>
   dashboard_read initSendable ''Open Loop''
     (dashboard_write initSendable ''Open Loop'' True (TeleOpCommand_init tr st ro fr False)) =
     Some (Inr False) \<and>
   execute (dashboard_write initSendable ''Open Loop'' True (TeleOpCommand_init tr st ro fr False)) d =
     drive d \<lparr>trans_x = tr () * max_velocity d, trans_y = st () * max_velocity d\<rparr>
       (ro () * max_angular_velocity d) fr False"
proof -
  have rd: "dashboard_read initSendable ''Open Loop'' c' = Some (getattr c' ''open_loop'')" for c'
    by (simp add: dashboard_read_def initSendable_def)
  have init: "getattr (TeleOpCommand_init tr st ro fr False) ''open_loop'' = Inr False"
    "getattr (TeleOpCommand_init tr st ro fr False) ''field_relative'' = Inr fr"
    "translation_input (TeleOpCommand_init tr st ro fr False) = tr"
    "strafe_input (TeleOpCommand_init tr st ro fr False) = st"
    "rotation_input (TeleOpCommand_init tr st ro fr False) = ro"
    by (simp_all add: TeleOpCommand_init_def getattr_setattr)
  show ?thesis
    by (simp add: rd open_loop_write getattr_setattr execute_def execute_with_def init
        cong: sum.case_cong)
qed

section \<open>Pose estimation\<close>

text \<open>
  Claim C7. A \<^verbatim>\<open>periodic\<close> call changes nothing but the estimator and the record of
  calls. It first updates the estimator with the gyro's heading and the module positions,
  then calls the vision callback once, with the estimate after that update, and then
  adds a vision measurement, with the result and the timestamp, exactly when the callback
  returned a pose; when it returned none the estimator is left as the update made it.
\<close>

theorem periodic_fuses_then_asks_vision:
  "periodic d now =
     (let fused = update (odometry d) (heading (gyro d)) (module_positions d);
          asked = getEstimatedPosition fused
      in d\<lparr>odometry := (case vision_pose_callback d asked of
                           None \<Rightarrow> fused
                         | Some p \<Rightarrow> addVisionMeasurement fused p now),
            calls := calls d @
              [Odometry_update (heading (gyro d)) (module_positions d), Vision_pose_callback asked] @
              (case vision_pose_callback d asked of
                 None \<Rightarrow> []
               | Some p \<Rightarrow> [Odometry_addVisionMeasurement p now])\<rparr>) \<and>
   vision_measurements (new_calls d (periodic d now)) =
     (case vision_pose_callback d
             (getEstimatedPosition (update (odometry d) (heading (gyro d)) (module_positions d))) of
        None \<Rightarrow> []
      | Some p \<Rightarrow> [(p, now)])"
  by (simp add: periodic_def pose_def Let_def new_calls_def split: option.split)

text \<open>
  Claim C8. Reading \<^verbatim>\<open>pose\<close> right after \<^verbatim>\<open>reset_odometry(P)\<close> gives \<open>P\<close>, whatever the
  drivetrain's state, its heading and its module positions.
\<close>

theorem pose_after_reset_odometry:
  "pose (reset_odometry d p) = p"
  by (simp add: pose_def reset_odometry_def resetPosition_def getEstimatedPosition_def)

section \<open>The drive-base radius\<close>

lemma fold_py_max:
  "fold (\<lambda>item m. if item > m then item else m) vs (v :: real) = Max (insert v (set vs))"
proof (induction vs arbitrary: v)
  case Nil
  then show ?case by simp
next
  case (Cons a vs)
  have m: "(if a > v then a else v) = max v a" by (simp add: max_def)
  have "Max (insert (max v a) (set vs)) = Max (insert v (insert a (set vs)))"
  proof (cases "vs = []")
    case True
    then show ?thesis by simp
  next
    case False
    then show ?thesis by (simp add: max.assoc)
  qed
  then show ?case using Cons.IH[of "max v a"] by (simp add: m)
qed

lemma py_max_Max: "xs \<noteq> [] \<Longrightarrow> py_max xs = Inr (Max (set xs))"
  by (cases xs) (simp_all add: fold_py_max)

text \<open>
  Claim C9. For a drivetrain with at least one module, \<^verbatim>\<open>follow_trajectory_command\<close>
  returns a command whose controller was given, as drive-base radius, the greatest of the
  distances \<open>sqrt (x\<^sup>2 + y\<^sup>2)\<close> of the module placements from the robot's centre.
\<close>

theorem follow_trajectory_command_radius:
  assumes "modules d \<noteq> []"
  shows "\<exists>cmd. follow_trajectory_command d path parameters first_path ol = Inr cmd \<and>
           drive_base_radius (controller cmd) =
             Max ((\<lambda>m. sqrt ((trans_x (placement m))\<^sup>2 + (trans_y (placement m))\<^sup>2)) ` set (modules d))"
proof -
  let ?dist = "\<lambda>trans. sqrt ((trans_x trans)\<^sup>2 + (trans_y trans)\<^sup>2)"
  have ne: "map ?dist (map placement (modules d)) \<noteq> []" using assms by simp
  have img: "set (map ?dist (map placement (modules d))) =
      (\<lambda>m. sqrt ((trans_x (placement m))\<^sup>2 + (trans_y (placement m))\<^sup>2)) ` set (modules d)"
    by (simp add: image_image)
  have "greatest_distance_from_translations (map placement (modules d)) =
      Inr (Max ((\<lambda>m. sqrt ((trans_x (placement m))\<^sup>2 + (trans_y (placement m))\<^sup>2)) ` set (modules d)))"
    unfolding greatest_distance_from_translations_def Let_def py_max_Max[OF ne] img ..
  then show ?thesis
    by (simp add: follow_trajectory_command_def)
qed

theorem follow_trajectory_command_radius_witness:
  "modules (rig 6) \<noteq> [] \<and>
   (\<exists>cmd. follow_trajectory_command (rig 6) origin_pose
             \<lparr>max_drive_velocity = 4, theta_kP = 1, xy_kP = 1\<rparr> False False = Inr cmd \<and>
          drive_base_radius (controller cmd) = sqrt (18 / 100))"
proof -
  have ne: "modules (rig 6) \<noteq> []" by (simp add: rig_def rig_modules_def)
  have "Max ((\<lambda>m. sqrt ((trans_x (placement m))\<^sup>2 + (trans_y (placement m))\<^sup>2)) ` set (modules (rig 6))) =
      sqrt (18 / 100)"
    by (simp add: rig_def rig_modules_def rig_module_def power2_eq_square)
  with ne follow_trajectory_command_radius[OF ne, of origin_pose
      "\<lparr>max_drive_velocity = 4, theta_kP = 1, xy_kP = 1\<rparr>" False False]
  show ?thesis by simp
qed

section \<open>The default vision callback\<close>

lemma desire_module_states_effect:
  "\<exists>cs. fst (desire_module_states d states ol rip) = d\<lparr>calls := calls d @ cs\<rparr> \<and>
        vision_measurements cs = []"
  unfolding desire_module_states_def Let_def using desire_loop_effect by blast

lemma drive_effect:
  "\<exists>cs. fst (drive d t r fr ol) = d\<lparr>calls := calls d @ cs\<rparr> \<and> vision_measurements cs = []"
  unfolding drive_def Let_def by (rule desire_module_states_effect)

lemma drive_chassis_speeds_effect:
  "\<exists>cs. fst (drive_chassis_speeds d s ol) = d\<lparr>calls := calls d @ cs\<rparr> \<and> vision_measurements cs = []"
  unfolding drive_chassis_speeds_def Let_def by (rule drive_effect)

lemma vision_measurements_resets [simp]: "vision_measurements (map Module_reset ns) = []"
  by (induction ns) simp_all

text \<open>
  One operation on a drivetrain that has the default callback: the callback stays, no
  vision measurement is added, and the estimator changes as the fusion update or the
  reset alone would change it.
\<close>

lemma step_default_callback:
  assumes "vision_pose_callback d = (\<lambda>_. None)"
  shows "vision_pose_callback (fst (step op d)) = (\<lambda>_. None) \<and>
         vision_measurements (calls (fst (step op d))) = vision_measurements (calls d) \<and>
         odometry (fst (step op d)) = expected_odometry op d"
proof (cases op)
  case (Periodic now)
  then show ?thesis using assms by (simp add: periodic_def Let_def)
next
  case (Drive t r fr ol)
  obtain cs where "fst (drive d t r fr ol) = d\<lparr>calls := calls d @ cs\<rparr>" "vision_measurements cs = []"
    using drive_effect by blast
  then show ?thesis using assms Drive by simp
next
  case (Drive_chassis_speeds s ol)
  obtain cs where "fst (drive_chassis_speeds d s ol) = d\<lparr>calls := calls d @ cs\<rparr>"
    "vision_measurements cs = []"
    using drive_chassis_speeds_effect by blast
  then show ?thesis using assms Drive_chassis_speeds by simp
next
  case (Desire_module_states sts ol rip)
  obtain cs where "fst (desire_module_states d sts ol rip) = d\<lparr>calls := calls d @ cs\<rparr>"
    "vision_measurements cs = []"
    using desire_module_states_effect by blast
  then show ?thesis using assms Desire_module_states by simp
next
  case Reset_modules
  then show ?thesis using assms by (simp add: reset_modules_def)
next
  case Zero_heading
  then show ?thesis using assms by (simp add: zero_heading_def)
next
  case (Reset_odometry p)
  then show ?thesis using assms by (simp add: reset_odometry_def)
next
  case (Sense h readings)
  then show ?thesis using assms by (simp add: sense_def)
qed

lemma run_default_callback:
  assumes "vision_pose_callback d = (\<lambda>_. None)"
  shows "vision_pose_callback (fst (run ops d)) = (\<lambda>_. None) \<and>
         vision_measurements (calls (fst (run ops d))) = vision_measurements (calls d)"
  using assms
proof (induction ops arbitrary: d)
  case Nil
  then show ?case by simp
next
  case (Cons op ops)
  obtain d' e where st: "step op d = (d', e)" by (cases "step op d")
  have d': "vision_pose_callback d' = (\<lambda>_. None)"
    "vision_measurements (calls d') = vision_measurements (calls d)"
    using step_default_callback[OF Cons.prems, of op] st by simp_all
  show ?case
  proof (cases e)
    case None
    then show ?thesis using st d' Cons.IH[OF d'(1)] by simp
  next
    case (Some err)
    then show ?thesis using st d' by simp
  qed
qed

lemma SwerveDrive_init_default:
  assumes "SwerveDrive_init lib mods g mv mav None = Inr d"
  shows "vision_pose_callback d = (\<lambda>_. None)" and "vision_measurements (calls d) = []"
  using assms
  by (auto simp: SwerveDrive_init_def Let_def split: option.splits)

text \<open>
  Claim C10. A drivetrain constructed without a \<^verbatim>\<open>vision_pose_callback\<close> argument has a
  callback that returns no correction for every pose. After any run of operations on it
  the callback is still that one and no vision measurement was ever added to the
  estimator; and any further operation changes the estimator only as the fusion update of
  \<^verbatim>\<open>periodic\<close> or the reset of \<^verbatim>\<open>reset_odometry\<close> does.
\<close>

theorem default_callback_adds_no_vision_measurement:
  assumes "SwerveDrive_init lib mods g mv mav None = Inr d"
  shows "(\<forall>p. vision_pose_callback d p = None) \<and>
         (\<forall>p. vision_pose_callback (fst (run ops d)) p = None) \<and>
         vision_measurements (calls (fst (run ops d))) = [] \<and>
         odometry (fst (step op (fst (run ops d)))) = expected_odometry op (fst (run ops d))"
proof -
  have d: "vision_pose_callback d = (\<lambda>_. None)" "vision_measurements (calls d) = []"
    using SwerveDrive_init_default[OF assms] by simp_all
  have r: "vision_pose_callback (fst (run ops d)) = (\<lambda>_. None)"
    "vision_measurements (calls (fst (run ops d))) = []"
    using run_default_callback[OF d(1), of ops] d(2) by simp_all
  show ?thesis
    using d(1) r step_default_callback[OF r(1), of op] by simp
qed

lemma rig_init: "SwerveDrive_init rig_wpimath (take 4 rig_modules) \<lparr>heading = 1\<rparr> 4 3 None = Inr (rig 4)"
  by (simp add: SwerveDrive_init_def rig_wpimath_def rig_def rig_modules_def Let_def)

lemma rig_run_completes:
  "snd (run [Periodic 1, Drive \<lparr>trans_x = 2, trans_y = 0\<rparr> 0 True True, Reset_odometry origin_pose, Periodic 2]
      (rig 4)) = None"
proof -
  have p: "modules (periodic d now) = modules d" "max_velocity (periodic d now) = max_velocity d"
    "kinematics (periodic d now) = kinematics d" "gyro (periodic d now) = gyro d" for d now
    by (simp_all add: periodic_def Let_def split: option.split)
  have "length (toSwerveModuleStates (kinematics (periodic (rig 4) 1))
       (drive_speeds (periodic (rig 4) 1) \<lparr>trans_x = 2, trans_y = 0\<rparr> 0 True)) =
       length (modules (periodic (rig 4) 1))"
    by (simp add: p)
  from desire_module_states_fanout[OF this, of True False]
  show ?thesis
    by (simp add: drive_def)
qed

theorem default_callback_adds_no_vision_measurement_witness:
  "SwerveDrive_init rig_wpimath (take 4 rig_modules) \<lparr>heading = 1\<rparr> 4 3 None = Inr (rig 4) \<and>
   snd (run [Periodic 1, Drive \<lparr>trans_x = 2, trans_y = 0\<rparr> 0 True True, Reset_odometry origin_pose, Periodic 2]
      (rig 4)) = None \<and>
   vision_measurements (calls (fst (run
      [Periodic 1, Drive \<lparr>trans_x = 2, trans_y = 0\<rparr> 0 True True, Reset_odometry origin_pose, Periodic 2]
      (rig 4)))) = [] \<and>
   odometry (fst (step (Periodic 3) (fst (run
      [Periodic 1, Drive \<lparr>trans_x = 2, trans_y = 0\<rparr> 0 True True, Reset_odometry origin_pose, Periodic 2]
      (rig 4))))) =
   expected_odometry (Periodic 3) (fst (run
      [Periodic 1, Drive \<lparr>trans_x = 2, trans_y = 0\<rparr> 0 True True, Reset_odometry origin_pose, Periodic 2]
      (rig 4)))"
  using default_callback_adds_no_vision_measurement[OF rig_init,
      of "[Periodic 1, Drive \<lparr>trans_x = 2, trans_y = 0\<rparr> 0 True True, Reset_odometry origin_pose, Periodic 2]"
         "Periodic 3"] rig_init rig_run_completes
  by blast

end
